theory Spec2Isabelle
  imports Main "HOL-Library.Word"
begin

unbundle bit_operations_syntax

section \<open>Data model\<close>

text \<open>
  The emulator of \<^verbatim>\<open>src/src/intel8080.cpp\<close>. A \<^verbatim>\<open>byte\<close> is an unsigned 8-bit
  integer and a \<^verbatim>\<open>bytePair\<close> an unsigned 16-bit integer; both wrap around.
\<close>

type_synonym byte = "8 word"
type_synonym bytePair = "16 word"

text \<open>
  \<^verbatim>\<open>regPair\<close> overlays a \<^verbatim>\<open>bytePair full\<close> with \<^verbatim>\<open>byte pair[2]\<close>, where
  \<^verbatim>\<open>high()\<close> is \<^verbatim>\<open>pair[1]\<close> and \<^verbatim>\<open>low()\<close> is \<^verbatim>\<open>pair[0]\<close>. The model stores
  the two halves and composes the pair on access, the low byte at the lower address.
\<close>

definition pair_of :: "byte \<Rightarrow> byte \<Rightarrow> bytePair" where
  "pair_of hi lo = push_bit 8 (ucast hi) OR ucast lo"

definition high_of :: "bytePair \<Rightarrow> byte" where
  "high_of w = ucast (drop_bit 8 w)"

definition low_of :: "bytePair \<Rightarrow> byte" where
  "low_of w = ucast w"

text \<open>
  The processor state: the members of class \<^verbatim>\<open>cpu\<close>. \<^verbatim>\<open>ram\<close> is a pointer into
  memory the host owns; the model indexes it by \<open>nat\<close>, since \<^verbatim>\<open>ram + SP\<close> is pointer
  arithmetic and a 16-bit access at address \<open>0xFFFF\<close> touches the cell after it.
  The input port handler is a function of the port; the calls of the output port
  handler are recorded in \<open>portOutput\<close>, in order.
\<close>

record cpu =
  A :: byte
  flags :: byte
  B :: byte
  C :: byte
  D :: byte
  E :: byte
  H :: byte
  L :: byte
  SP :: bytePair
  PC :: bytePair
  ram :: "nat \<Rightarrow> byte"
  halted :: bool
  interruptsEnabled :: bool
  interruptPending :: bool
  interruptVector :: byte
  portInputHandler :: "byte \<Rightarrow> byte"
  portOutput :: "(byte \<times> byte) list"

definition PSW :: "cpu \<Rightarrow> bytePair" where
  "PSW s = pair_of (A s) (flags s)"

definition BC :: "cpu \<Rightarrow> bytePair" where
  "BC s = pair_of (B s) (C s)"

definition DE :: "cpu \<Rightarrow> bytePair" where
  "DE s = pair_of (D s) (E s)"

definition HL :: "cpu \<Rightarrow> bytePair" where
  "HL s = pair_of (H s) (L s)"

text \<open>
  A \<^verbatim>\<open>byte&\<close> argument (\<^verbatim>\<open>inr\<close>, \<^verbatim>\<open>dcr\<close>, the operands of \<^verbatim>\<open>MOV\<close>) names a
  register or the memory cell \<^verbatim>\<open>atHL()\<close>, that is \<^verbatim>\<open>ram[HL()]\<close>.
\<close>

datatype ref8 = refB | refC | refD | refE | refH | refL | refAtHL | refA

fun get_r8 :: "ref8 \<Rightarrow> cpu \<Rightarrow> byte" where
  "get_r8 refB s = B s"
| "get_r8 refC s = C s"
| "get_r8 refD s = D s"
| "get_r8 refE s = E s"
| "get_r8 refH s = H s"
| "get_r8 refL s = L s"
| "get_r8 refAtHL s = ram s (unat (HL s))"
| "get_r8 refA s = A s"

fun set_r8 :: "ref8 \<Rightarrow> byte \<Rightarrow> cpu \<Rightarrow> cpu" where
  "set_r8 refB v s = s\<lparr>B := v\<rparr>"
| "set_r8 refC v s = s\<lparr>C := v\<rparr>"
| "set_r8 refD v s = s\<lparr>D := v\<rparr>"
| "set_r8 refE v s = s\<lparr>E := v\<rparr>"
| "set_r8 refH v s = s\<lparr>H := v\<rparr>"
| "set_r8 refL v s = s\<lparr>L := v\<rparr>"
| "set_r8 refAtHL v s = s\<lparr>ram := (ram s)(unat (HL s) := v)\<rparr>"
| "set_r8 refA v s = s\<lparr>A := v\<rparr>"

text \<open>
  A \<^verbatim>\<open>bytePair&\<close> argument (\<^verbatim>\<open>pop\<close>, \<^verbatim>\<open>dad\<close>) names a register pair, the stack
  pointer or the program counter.
\<close>

datatype reg16 = rBC | rDE | rHL | rPSW | rSP | rPC

fun get_r16 :: "reg16 \<Rightarrow> cpu \<Rightarrow> bytePair" where
  "get_r16 rBC s = BC s"
| "get_r16 rDE s = DE s"
| "get_r16 rHL s = HL s"
| "get_r16 rPSW s = PSW s"
| "get_r16 rSP s = SP s"
| "get_r16 rPC s = PC s"

fun set_r16 :: "reg16 \<Rightarrow> bytePair \<Rightarrow> cpu \<Rightarrow> cpu" where
  "set_r16 rBC v s = s\<lparr>B := high_of v, C := low_of v\<rparr>"
| "set_r16 rDE v s = s\<lparr>D := high_of v, E := low_of v\<rparr>"
| "set_r16 rHL v s = s\<lparr>H := high_of v, L := low_of v\<rparr>"
| "set_r16 rPSW v s = s\<lparr>A := high_of v, flags := low_of v\<rparr>"
| "set_r16 rSP v s = s\<lparr>SP := v\<rparr>"
| "set_r16 rPC v s = s\<lparr>PC := v\<rparr>"

text \<open>
  \<^verbatim>\<open>*(bytePair*)(ram + a)\<close>: the 16-bit value in the cells \<open>a\<close> and \<open>a + 1\<close>, low
  byte first.
\<close>

definition read16 :: "(nat \<Rightarrow> byte) \<Rightarrow> nat \<Rightarrow> bytePair" where
  "read16 m a = pair_of (m (a + 1)) (m a)"

definition write16 :: "(nat \<Rightarrow> byte) \<Rightarrow> nat \<Rightarrow> bytePair \<Rightarrow> (nat \<Rightarrow> byte)" where
  "write16 m a v = m(a := low_of v, a + 1 := high_of v)"

section \<open>Flags\<close>

text \<open>
  Modelled from the spec: the enumeration \<^verbatim>\<open>flagPos\<close> is declared in
  \<^verbatim>\<open>intel8080.hpp\<close>, which is not among the sources. The spec gives the bit of each
  flag: bit 0 Carry, bit 2 Parity, bit 4 Auxiliary Carry, bit 6 Zero, bit 7 Sign. A
  flag position is a bit number; the code also passes the plain numbers 1, 3 and 5.
\<close>

definition carry :: nat where
  "carry = 0"

definition parity :: nat where
  "parity = 2"

definition auxCarry :: nat where
  "auxCarry = 4"

definition zero :: nat where
  "zero = 6"

definition sign :: nat where
  "sign = 7"

text \<open>
  Modelled from the spec: \<^verbatim>\<open>lowBitsOf\<close> and \<^verbatim>\<open>highBitsOf\<close> are declared in
  \<^verbatim>\<open>intel8080.hpp\<close>, which is not among the sources. The spec reads
  \<^verbatim>\<open>lowBitsOf(x, 4)\<close> as the low 4 bits of \<open>x\<close>, \<^verbatim>\<open>highBitsOf(x, 4)\<close> as its high
  nibble (compared with 9) and \<^verbatim>\<open>highBitsOf(x, 1)\<close> as bit 7: the \<open>n\<close> lowest bits, and
  the \<open>n\<close> highest bits moved down to bit 0.
\<close>

definition lowBitsOf :: "byte \<Rightarrow> nat \<Rightarrow> byte" where
  "lowBitsOf x n = take_bit n x"

definition highBitsOf :: "byte \<Rightarrow> nat \<Rightarrow> byte" where
  "highBitsOf x n = drop_bit (8 - n) x"

text \<open>\<^verbatim>\<open>(flags() >> f) % 2\<close>, an \<^verbatim>\<open>int\<close> that is 0 or 1.\<close>

definition getFlag :: "nat \<Rightarrow> cpu \<Rightarrow> nat" where
  "getFlag f s = unat (drop_bit f (flags s)) mod 2"

definition setFlag :: "nat \<Rightarrow> bool \<Rightarrow> cpu \<Rightarrow> cpu" where
  "setFlag f condition s =
     (if condition then s\<lparr>flags := flags s OR push_bit f 1\<rparr>
      else s\<lparr>flags := flags s AND NOT (push_bit f 1)\<rparr>)"

text \<open>
  GCC's \<^verbatim>\<open>__builtin_parity\<close>: the number of 1-bits of its argument modulo 2. The
  argument is a \<^verbatim>\<open>byte\<close>, so only bits 0 to 7 can be set.
\<close>

definition builtin_parity :: "byte \<Rightarrow> nat" where
  "builtin_parity w = length (filter (bit w) [0, 1, 2, 3, 4, 5, 6, 7]) mod 2"

text \<open>
  \<^verbatim>\<open>updateFlags\<close> is only ever instantiated at \<^verbatim>\<open>byte\<close>: the cast to the signed
  type reads the result as two's complement.
\<close>

definition updateFlags :: "byte \<Rightarrow> cpu \<Rightarrow> cpu" where
  "updateFlags result s =
     (let s1 = setFlag sign (sint result < 0) s;
          s2 = setFlag zero (result = 0) s1
      in setFlag parity (builtin_parity result = 0) s2)"

text \<open>The operands are promoted to \<^verbatim>\<open>int\<close>, so the sum of the nibbles does not wrap.\<close>

definition updateAuxCarryFlag :: "byte \<Rightarrow> byte \<Rightarrow> cpu \<Rightarrow> cpu" where
  "updateAuxCarryFlag a b s =
     setFlag auxCarry (unat (lowBitsOf b 4) + unat (lowBitsOf a 4) > 15) s"

section \<open>Arithmetic and logic\<close>

definition inr :: "ref8 \<Rightarrow> cpu \<Rightarrow> cpu" where
  "inr r8 s =
     (let s1 = setFlag auxCarry (lowBitsOf (get_r8 r8 s) 4 = 15) s;
          v = get_r8 r8 s1 + 1;
          s2 = set_r8 r8 v s1
      in updateFlags v s2)"

definition dcr :: "ref8 \<Rightarrow> cpu \<Rightarrow> cpu" where
  "dcr r8 s =
     (let s1 = setFlag auxCarry (lowBitsOf (get_r8 r8 s) 4 = 0) s;
          v = get_r8 r8 s1 - 1;
          s2 = set_r8 r8 v s1
      in updateFlags v s2)"

text \<open>
  \<^verbatim>\<open>r16 > max - HL()\<close> is computed on \<^verbatim>\<open>int\<close>; \<^verbatim>\<open>HL() += r16\<close> wraps at 16 bits.
\<close>

definition dad :: "reg16 \<Rightarrow> cpu \<Rightarrow> cpu" where
  "dad r16 s =
     (let s1 = setFlag carry (uint (get_r16 r16 s) > 65535 - uint (HL s)) s
      in set_r16 rHL (HL s1 + get_r16 r16 s1) s1)"

text \<open>
  \<^verbatim>\<open>added\<close> is a \<^verbatim>\<open>byte\<close>: \<^verbatim>\<open>++added\<close> wraps from 255 to 0. The comparison
  \<^verbatim>\<open>added > max - A()\<close> is computed on \<^verbatim>\<open>int\<close>.
\<close>

definition add :: "byte \<Rightarrow> bool \<Rightarrow> cpu \<Rightarrow> cpu" where
  "add r8 withCarry s =
     (let added = (if withCarry \<and> getFlag carry s \<noteq> 0 then r8 + 1 else r8);
          s1 = setFlag carry (uint added > 255 - uint (A s)) s;
          s2 = updateAuxCarryFlag (A s1) added s1;
          s3 = s2\<lparr>A := A s2 + added\<rparr>
      in updateFlags (A s3) s3)"

definition sub :: "byte \<Rightarrow> bool \<Rightarrow> cpu \<Rightarrow> cpu" where
  "sub r8 withBorrow s =
     (let added = (if withBorrow \<and> getFlag carry s \<noteq> 0 then r8 + 1 else r8);
          s1 = setFlag carry (added > A s) s;
          s2 = s1\<lparr>A := A s1 - added\<rparr>
      in updateFlags (A s2) s2)"

definition cmp :: "byte \<Rightarrow> cpu \<Rightarrow> cpu" where
  "cmp r8 s = (let copyA = A s; s1 = sub r8 False s in s1\<lparr>A := copyA\<rparr>)"

definition logicAnd :: "byte \<Rightarrow> cpu \<Rightarrow> cpu" where
  "logicAnd r8 s =
     (let s1 = s\<lparr>A := A s AND r8\<rparr>; s2 = updateFlags (A s1) s1 in setFlag carry False s2)"

definition logicOr :: "byte \<Rightarrow> cpu \<Rightarrow> cpu" where
  "logicOr r8 s =
     (let s1 = s\<lparr>A := A s OR r8\<rparr>; s2 = updateFlags (A s1) s1 in setFlag carry False s2)"

definition logicXor :: "byte \<Rightarrow> cpu \<Rightarrow> cpu" where
  "logicXor r8 s =
     (let s1 = s\<lparr>A := A s XOR r8\<rparr>; s2 = updateFlags (A s1) s1 in setFlag carry False s2)"

section \<open>Stack and control transfer\<close>

definition get8 :: "cpu \<Rightarrow> byte \<times> cpu" where
  "get8 s = (ram s (unat (PC s)), s\<lparr>PC := PC s + 1\<rparr>)"

definition get16 :: "cpu \<Rightarrow> bytePair \<times> cpu" where
  "get16 s = (read16 (ram s) (unat (PC s)), s\<lparr>PC := PC s + 2\<rparr>)"

definition push :: "bytePair \<Rightarrow> cpu \<Rightarrow> cpu" where
  "push r16 s =
     (let s1 = s\<lparr>SP := SP s - 2\<rparr>
      in s1\<lparr>ram := write16 (ram s1) (unat (SP s1)) r16\<rparr>)"

definition pop :: "reg16 \<Rightarrow> cpu \<Rightarrow> cpu" where
  "pop r16 s =
     (let s1 = set_r16 r16 (read16 (ram s) (unat (SP s))) s;
          s2 = s1\<lparr>SP := SP s1 + 2\<rparr>;
          s3 = setFlag 5 False s2;
          s4 = setFlag 3 False s3
      in setFlag 1 True s4)"

definition rst :: "nat \<Rightarrow> cpu \<Rightarrow> cpu" where
  "rst rstNum s = (let s1 = push (PC s) s in s1\<lparr>PC := of_nat (8 * rstNum)\<rparr>)"

definition jmp :: "bool \<Rightarrow> cpu \<Rightarrow> cpu" where
  "jmp condition s =
     (case get16 s of (adr, s1) \<Rightarrow> if condition then s1\<lparr>PC := adr\<rparr> else s1)"

definition ret :: "bool \<Rightarrow> cpu \<Rightarrow> cpu" where
  "ret condition s = (if condition then pop rPC s else s)"

definition call :: "bool \<Rightarrow> cpu \<Rightarrow> cpu" where
  "call condition s =
     (case get16 s of (adr, s1) \<Rightarrow>
        if condition then (let s2 = push (PC s1) s1 in s2\<lparr>PC := adr\<rparr>) else s1)"

section \<open>Instruction dispatch\<close>

text \<open>
  The \<^verbatim>\<open>switch\<close> of \<^verbatim>\<open>cpu::exec\<close>, case by case in the order of the source. The
  \<^verbatim>\<open>switch\<close> has no \<^verbatim>\<open>default\<close>: a value with no case falls through to the end
  and nothing happens.
\<close>

definition exec :: "byte \<Rightarrow> cpu \<Rightarrow> cpu" where
  "exec instr s = (
     if instr = 0x00 \<or> instr = 0x08 \<or> instr = 0x10 \<or> instr = 0x18 \<or> instr = 0x20 \<or> instr = 0x28 \<or> instr = 0x30 \<or> instr = 0x38 then s
     else if instr = 0x01 then (case get16 s of (d16, s1) \<Rightarrow> set_r16 rBC d16 s1)
     else if instr = 0x11 then (case get16 s of (d16, s1) \<Rightarrow> set_r16 rDE d16 s1)
     else if instr = 0x21 then (case get16 s of (d16, s1) \<Rightarrow> set_r16 rHL d16 s1)
     else if instr = 0x31 then (case get16 s of (d16, s1) \<Rightarrow> set_r16 rSP d16 s1)
     else if instr = 0x02 then s\<lparr>ram := (ram s)(unat (BC s) := A s)\<rparr>
     else if instr = 0x12 then s\<lparr>ram := (ram s)(unat (DE s) := A s)\<rparr>
     else if instr = 0x0a then s\<lparr>A := ram s (unat (BC s))\<rparr>
     else if instr = 0x1a then s\<lparr>A := ram s (unat (DE s))\<rparr>
     else if instr = 0x22 then (case get16 s of (a16, s1) \<Rightarrow> s1\<lparr>ram := write16 (ram s1) (unat a16) (HL s1)\<rparr>)
     else if instr = 0x2a then (case get16 s of (a16, s1) \<Rightarrow> set_r16 rHL (read16 (ram s1) (unat a16)) s1)
     else if instr = 0x32 then (case get16 s of (a16, s1) \<Rightarrow> s1\<lparr>ram := (ram s1)(unat a16 := A s1)\<rparr>)
     else if instr = 0x3a then (case get16 s of (a16, s1) \<Rightarrow> s1\<lparr>A := ram s1 (unat a16)\<rparr>)
     else if instr = 0x03 then set_r16 rBC (get_r16 rBC s + 1) s
     else if instr = 0x13 then set_r16 rDE (get_r16 rDE s + 1) s
     else if instr = 0x23 then set_r16 rHL (get_r16 rHL s + 1) s
     else if instr = 0x33 then set_r16 rSP (get_r16 rSP s + 1) s
     else if instr = 0x0b then set_r16 rBC (get_r16 rBC s - 1) s
     else if instr = 0x1b then set_r16 rDE (get_r16 rDE s - 1) s
     else if instr = 0x2b then set_r16 rHL (get_r16 rHL s - 1) s
     else if instr = 0x3b then set_r16 rSP (get_r16 rSP s - 1) s
     else if instr = 0x04 then inr refB s
     else if instr = 0x0c then inr refC s
     else if instr = 0x14 then inr refD s
     else if instr = 0x1c then inr refE s
     else if instr = 0x24 then inr refH s
     else if instr = 0x2c then inr refL s
     else if instr = 0x34 then inr refAtHL s
     else if instr = 0x3c then inr refA s
     else if instr = 0x05 then dcr refB s
     else if instr = 0x0d then dcr refC s
     else if instr = 0x15 then dcr refD s
     else if instr = 0x1d then dcr refE s
     else if instr = 0x25 then dcr refH s
     else if instr = 0x2d then dcr refL s
     else if instr = 0x35 then dcr refAtHL s
     else if instr = 0x3d then dcr refA s
     else if instr = 0x06 then (case get8 s of (d8, s1) \<Rightarrow> set_r8 refB d8 s1)
     else if instr = 0x0e then (case get8 s of (d8, s1) \<Rightarrow> set_r8 refC d8 s1)
     else if instr = 0x16 then (case get8 s of (d8, s1) \<Rightarrow> set_r8 refD d8 s1)
     else if instr = 0x1e then (case get8 s of (d8, s1) \<Rightarrow> set_r8 refE d8 s1)
     else if instr = 0x26 then (case get8 s of (d8, s1) \<Rightarrow> set_r8 refH d8 s1)
     else if instr = 0x2e then (case get8 s of (d8, s1) \<Rightarrow> set_r8 refL d8 s1)
     else if instr = 0x36 then (case get8 s of (d8, s1) \<Rightarrow> set_r8 refAtHL d8 s1)
     else if instr = 0x3e then (case get8 s of (d8, s1) \<Rightarrow> set_r8 refA d8 s1)
     else if instr = 0x07 then (let temp = (ucast (highBitsOf (A s) 1) :: bytePair); s1 = setFlag carry (temp \<noteq> 0) s; s2 = s1\<lparr>A := push_bit 1 (A s1)\<rparr> in s2\<lparr>A := A s2 + ucast temp\<rparr>)
     else if instr = 0x0f then (let temp = (ucast (lowBitsOf (A s) 1) :: bytePair); s1 = setFlag carry (temp \<noteq> 0) s; s2 = s1\<lparr>A := drop_bit 1 (A s1)\<rparr> in s2\<lparr>A := A s2 + push_bit 7 1 * ucast temp\<rparr>)
     else if instr = 0x17 then (let s1 = setFlag carry (highBitsOf (A s) 1 \<noteq> 0) s in s1\<lparr>A := push_bit 1 (A s1)\<rparr>)
     else if instr = 0x1f then (let s1 = setFlag carry (lowBitsOf (A s) 1 \<noteq> 0) s in s1\<lparr>A := drop_bit 1 (A s1)\<rparr>)
     else if instr = 0x27 then (let s1 = (if getFlag auxCarry s \<noteq> 0 \<or> lowBitsOf (A s) 4 > 9 then setFlag auxCarry True (s\<lparr>A := A s + 6\<rparr>) else s); s2 = (if getFlag carry s1 \<noteq> 0 \<or> highBitsOf (A s1) 4 > 9 then setFlag carry True (s1\<lparr>A := A s1 + push_bit 4 6\<rparr>) else s1) in updateFlags (A s2) s2)
     else if instr = 0x37 then setFlag carry True s
     else if instr = 0x2f then s\<lparr>A := NOT (A s)\<rparr>
     else if instr = 0x3f then setFlag carry (getFlag carry s = 0) s
     else if instr = 0x09 then dad rBC s
     else if instr = 0x19 then dad rDE s
     else if instr = 0x29 then dad rHL s
     else if instr = 0x39 then dad rSP s
     else if instr = 0x40 then set_r8 refB (get_r8 refB s) s
     else if instr = 0x41 then set_r8 refB (get_r8 refC s) s
     else if instr = 0x42 then set_r8 refB (get_r8 refD s) s
     else if instr = 0x43 then set_r8 refB (get_r8 refE s) s
     else if instr = 0x44 then set_r8 refB (get_r8 refH s) s
     else if instr = 0x45 then set_r8 refB (get_r8 refL s) s
     else if instr = 0x46 then set_r8 refB (get_r8 refAtHL s) s
     else if instr = 0x47 then set_r8 refB (get_r8 refA s) s
     else if instr = 0x48 then set_r8 refC (get_r8 refB s) s
     else if instr = 0x49 then set_r8 refC (get_r8 refC s) s
     else if instr = 0x4a then set_r8 refC (get_r8 refD s) s
     else if instr = 0x4b then set_r8 refC (get_r8 refE s) s
     else if instr = 0x4c then set_r8 refC (get_r8 refH s) s
     else if instr = 0x4d then set_r8 refC (get_r8 refL s) s
     else if instr = 0x4e then set_r8 refC (get_r8 refAtHL s) s
     else if instr = 0x4f then set_r8 refC (get_r8 refA s) s
     else if instr = 0x50 then set_r8 refD (get_r8 refB s) s
     else if instr = 0x51 then set_r8 refD (get_r8 refC s) s
     else if instr = 0x52 then set_r8 refD (get_r8 refD s) s
     else if instr = 0x53 then set_r8 refD (get_r8 refE s) s
     else if instr = 0x54 then set_r8 refD (get_r8 refH s) s
     else if instr = 0x55 then set_r8 refD (get_r8 refL s) s
     else if instr = 0x56 then set_r8 refD (get_r8 refAtHL s) s
     else if instr = 0x57 then set_r8 refD (get_r8 refA s) s
     else if instr = 0x58 then set_r8 refE (get_r8 refB s) s
     else if instr = 0x59 then set_r8 refE (get_r8 refC s) s
     else if instr = 0x5a then set_r8 refE (get_r8 refD s) s
     else if instr = 0x5b then set_r8 refE (get_r8 refE s) s
     else if instr = 0x5c then set_r8 refE (get_r8 refH s) s
     else if instr = 0x5d then set_r8 refE (get_r8 refL s) s
     else if instr = 0x5e then set_r8 refE (get_r8 refAtHL s) s
     else if instr = 0x5f then set_r8 refE (get_r8 refA s) s
     else if instr = 0x60 then set_r8 refH (get_r8 refB s) s
     else if instr = 0x61 then set_r8 refH (get_r8 refC s) s
     else if instr = 0x62 then set_r8 refH (get_r8 refD s) s
     else if instr = 0x63 then set_r8 refH (get_r8 refE s) s
     else if instr = 0x64 then set_r8 refH (get_r8 refH s) s
     else if instr = 0x65 then set_r8 refH (get_r8 refL s) s
     else if instr = 0x66 then set_r8 refH (get_r8 refAtHL s) s
     else if instr = 0x67 then set_r8 refH (get_r8 refA s) s
     else if instr = 0x68 then set_r8 refL (get_r8 refB s) s
     else if instr = 0x69 then set_r8 refL (get_r8 refC s) s
     else if instr = 0x6a then set_r8 refL (get_r8 refD s) s
     else if instr = 0x6b then set_r8 refL (get_r8 refE s) s
     else if instr = 0x6c then set_r8 refL (get_r8 refH s) s
     else if instr = 0x6d then set_r8 refL (get_r8 refL s) s
     else if instr = 0x6e then set_r8 refL (get_r8 refAtHL s) s
     else if instr = 0x6f then set_r8 refL (get_r8 refA s) s
     else if instr = 0x70 then set_r8 refAtHL (get_r8 refB s) s
     else if instr = 0x71 then set_r8 refAtHL (get_r8 refC s) s
     else if instr = 0x72 then set_r8 refAtHL (get_r8 refD s) s
     else if instr = 0x73 then set_r8 refAtHL (get_r8 refE s) s
     else if instr = 0x74 then set_r8 refAtHL (get_r8 refH s) s
     else if instr = 0x75 then set_r8 refAtHL (get_r8 refL s) s
     else if instr = 0x77 then set_r8 refAtHL (get_r8 refA s) s
     else if instr = 0x78 then set_r8 refA (get_r8 refB s) s
     else if instr = 0x79 then set_r8 refA (get_r8 refC s) s
     else if instr = 0x7a then set_r8 refA (get_r8 refD s) s
     else if instr = 0x7b then set_r8 refA (get_r8 refE s) s
     else if instr = 0x7c then set_r8 refA (get_r8 refH s) s
     else if instr = 0x7d then set_r8 refA (get_r8 refL s) s
     else if instr = 0x7e then set_r8 refA (get_r8 refAtHL s) s
     else if instr = 0x7f then set_r8 refA (get_r8 refA s) s
     else if instr = 0x76 then s\<lparr>halted := True\<rparr>
     else if instr = 0x80 then add (get_r8 refB s) False s
     else if instr = 0x81 then add (get_r8 refC s) False s
     else if instr = 0x82 then add (get_r8 refD s) False s
     else if instr = 0x83 then add (get_r8 refE s) False s
     else if instr = 0x84 then add (get_r8 refH s) False s
     else if instr = 0x85 then add (get_r8 refL s) False s
     else if instr = 0x86 then add (get_r8 refAtHL s) False s
     else if instr = 0x87 then add (get_r8 refA s) False s
     else if instr = 0x88 then add (get_r8 refB s) True s
     else if instr = 0x89 then add (get_r8 refC s) True s
     else if instr = 0x8a then add (get_r8 refD s) True s
     else if instr = 0x8b then add (get_r8 refE s) True s
     else if instr = 0x8c then add (get_r8 refH s) True s
     else if instr = 0x8d then add (get_r8 refL s) True s
     else if instr = 0x8e then add (get_r8 refAtHL s) True s
     else if instr = 0x8f then add (get_r8 refA s) True s
     else if instr = 0x90 then sub (get_r8 refB s) False s
     else if instr = 0x91 then sub (get_r8 refC s) False s
     else if instr = 0x92 then sub (get_r8 refD s) False s
     else if instr = 0x93 then sub (get_r8 refE s) False s
     else if instr = 0x94 then sub (get_r8 refH s) False s
     else if instr = 0x95 then sub (get_r8 refL s) False s
     else if instr = 0x96 then sub (get_r8 refAtHL s) False s
     else if instr = 0x97 then sub (get_r8 refA s) False s
     else if instr = 0x98 then sub (get_r8 refB s) True s
     else if instr = 0x99 then sub (get_r8 refC s) True s
     else if instr = 0x9a then sub (get_r8 refD s) True s
     else if instr = 0x9b then sub (get_r8 refE s) True s
     else if instr = 0x9c then sub (get_r8 refH s) True s
     else if instr = 0x9d then sub (get_r8 refL s) True s
     else if instr = 0x9e then sub (get_r8 refAtHL s) True s
     else if instr = 0x9f then sub (get_r8 refA s) True s
     else if instr = 0xa0 then logicAnd (get_r8 refB s) s
     else if instr = 0xa1 then logicAnd (get_r8 refC s) s
     else if instr = 0xa2 then logicAnd (get_r8 refD s) s
     else if instr = 0xa3 then logicAnd (get_r8 refE s) s
     else if instr = 0xa4 then logicAnd (get_r8 refH s) s
     else if instr = 0xa5 then logicAnd (get_r8 refL s) s
     else if instr = 0xa6 then logicAnd (get_r8 refAtHL s) s
     else if instr = 0xa7 then logicAnd (get_r8 refA s) s
     else if instr = 0xa8 then logicXor (get_r8 refB s) s
     else if instr = 0xa9 then logicXor (get_r8 refC s) s
     else if instr = 0xaa then logicXor (get_r8 refD s) s
     else if instr = 0xab then logicXor (get_r8 refE s) s
     else if instr = 0xac then logicXor (get_r8 refH s) s
     else if instr = 0xad then logicXor (get_r8 refL s) s
     else if instr = 0xae then logicXor (get_r8 refAtHL s) s
     else if instr = 0xaf then logicXor (get_r8 refA s) s
     else if instr = 0xb0 then logicOr (get_r8 refB s) s
     else if instr = 0xb1 then logicOr (get_r8 refC s) s
     else if instr = 0xb2 then logicOr (get_r8 refD s) s
     else if instr = 0xb3 then logicOr (get_r8 refE s) s
     else if instr = 0xb4 then logicOr (get_r8 refH s) s
     else if instr = 0xb5 then logicOr (get_r8 refL s) s
     else if instr = 0xb6 then logicOr (get_r8 refAtHL s) s
     else if instr = 0xb7 then logicOr (get_r8 refA s) s
     else if instr = 0xb8 then cmp (get_r8 refB s) s
     else if instr = 0xb9 then cmp (get_r8 refC s) s
     else if instr = 0xba then cmp (get_r8 refD s) s
     else if instr = 0xbb then cmp (get_r8 refE s) s
     else if instr = 0xbc then cmp (get_r8 refH s) s
     else if instr = 0xbd then cmp (get_r8 refL s) s
     else if instr = 0xbe then cmp (get_r8 refAtHL s) s
     else if instr = 0xbf then cmp (get_r8 refA s) s
     else if instr = 0xc6 then (case get8 s of (d8, s1) \<Rightarrow> add d8 False s1)
     else if instr = 0xce then (case get8 s of (d8, s1) \<Rightarrow> add d8 True s1)
     else if instr = 0xd6 then (case get8 s of (d8, s1) \<Rightarrow> sub d8 False s1)
     else if instr = 0xde then (case get8 s of (d8, s1) \<Rightarrow> sub d8 True s1)
     else if instr = 0xe6 then (case get8 s of (d8, s1) \<Rightarrow> logicAnd d8 s1)
     else if instr = 0xee then (case get8 s of (d8, s1) \<Rightarrow> logicXor d8 s1)
     else if instr = 0xf6 then (case get8 s of (d8, s1) \<Rightarrow> logicOr d8 s1)
     else if instr = 0xfe then (case get8 s of (d8, s1) \<Rightarrow> cmp d8 s1)
     else if instr = 0xeb then (let temp = HL s; s1 = set_r16 rHL (DE s) s in set_r16 rDE temp s1)
     else if instr = 0xe3 then (let temp = read16 (ram s) (unat (SP s)); s1 = s\<lparr>ram := write16 (ram s) (unat (SP s)) (HL s)\<rparr> in set_r16 rHL temp s1)
     else if instr = 0xf9 then s\<lparr>SP := HL s\<rparr>
     else if instr = 0xe9 then s\<lparr>PC := HL s\<rparr>
     else if instr = 0xf3 then s\<lparr>interruptsEnabled := False\<rparr>
     else if instr = 0xfb then s\<lparr>interruptsEnabled := True\<rparr>
     else if instr = 0xc5 then push (BC s) s
     else if instr = 0xd5 then push (DE s) s
     else if instr = 0xe5 then push (HL s) s
     else if instr = 0xf5 then push (PSW s) s
     else if instr = 0xc1 then pop rBC s
     else if instr = 0xd1 then pop rDE s
     else if instr = 0xe1 then pop rHL s
     else if instr = 0xf1 then pop rPSW s
     else if instr = 0xdb then (case get8 s of (p8, s1) \<Rightarrow> s1\<lparr>A := portInputHandler s1 p8\<rparr>)
     else if instr = 0xd3 then (case get8 s of (p8, s1) \<Rightarrow> s1\<lparr>portOutput := portOutput s1 @ [(p8, A s1)]\<rparr>)
     else if instr = 0xc7 then rst 0 s
     else if instr = 0xcf then rst 1 s
     else if instr = 0xd7 then rst 2 s
     else if instr = 0xdf then rst 3 s
     else if instr = 0xe7 then rst 4 s
     else if instr = 0xef then rst 5 s
     else if instr = 0xf7 then rst 6 s
     else if instr = 0xff then rst 7 s
     else if instr = 0xc2 then jmp (getFlag zero s = 0) s
     else if instr = 0xc3 then jmp (True) s
     else if instr = 0xca then jmp (getFlag zero s \<noteq> 0) s
     else if instr = 0xd2 then jmp (getFlag carry s = 0) s
     else if instr = 0xda then jmp (getFlag carry s \<noteq> 0) s
     else if instr = 0xe2 then jmp (getFlag parity s = 0) s
     else if instr = 0xea then jmp (getFlag parity s \<noteq> 0) s
     else if instr = 0xf2 then jmp (getFlag sign s = 0) s
     else if instr = 0xfa then jmp (getFlag sign s \<noteq> 0) s
     else if instr = 0xc9 \<or> instr = 0xd9 then ret (True) s
     else if instr = 0xc0 then ret (getFlag zero s = 0) s
     else if instr = 0xc8 then ret (getFlag zero s \<noteq> 0) s
     else if instr = 0xd0 then ret (getFlag carry s = 0) s
     else if instr = 0xd8 then ret (getFlag carry s \<noteq> 0) s
     else if instr = 0xe0 then ret (getFlag parity s = 0) s
     else if instr = 0xe8 then ret (getFlag parity s \<noteq> 0) s
     else if instr = 0xf0 then ret (getFlag sign s = 0) s
     else if instr = 0xf8 then ret (getFlag sign s \<noteq> 0) s
     else if instr = 0xcd \<or> instr = 0xdd \<or> instr = 0xed \<or> instr = 0xfd then call (True) s
     else if instr = 0xc4 then call (getFlag zero s = 0) s
     else if instr = 0xcc then call (getFlag zero s \<noteq> 0) s
     else if instr = 0xd4 then call (getFlag carry s = 0) s
     else if instr = 0xdc then call (getFlag carry s \<noteq> 0) s
     else if instr = 0xe4 then call (getFlag parity s = 0) s
     else if instr = 0xec then call (getFlag parity s \<noteq> 0) s
     else if instr = 0xf4 then call (getFlag sign s = 0) s
     else if instr = 0xfc then call (getFlag sign s \<noteq> 0) s
     else s)"

section \<open>Interrupts and the step function\<close>

definition interrupt :: "byte \<Rightarrow> cpu \<Rightarrow> cpu" where
  "interrupt v s =
     (if interruptsEnabled s
      then s\<lparr>interruptsEnabled := False, interruptPending := True, interruptVector := v\<rparr>
      else s)"

definition step :: "cpu \<Rightarrow> cpu" where
  "step s =
     (if interruptsEnabled s \<and> interruptPending s
      then (let s1 = exec (interruptVector s) s;
                s2 = s1\<lparr>interruptPending := False\<rparr>
            in s2\<lparr>halted := False\<rparr>)
      else if \<not> halted s
      then (case get8 s of (instr, s1) \<Rightarrow> exec instr s1)
      else s)"

text \<open>
  The constructor \<^verbatim>\<open>cpu::cpu\<close> stores the memory pointer and the two port handlers
  and sets bit 1 of the flags. Modelled from the spec: the initial values of the
  other members are in \<^verbatim>\<open>intel8080.hpp\<close>, which is not among the sources; the
  spec says that all other state is zeroed.
\<close>

definition cpu_new :: "(byte \<Rightarrow> byte) \<Rightarrow> (nat \<Rightarrow> byte) \<Rightarrow> cpu" where
  "cpu_new pih preAllocatedRam =
     setFlag 1 True
       \<lparr>A = 0, flags = 0, B = 0, C = 0, D = 0, E = 0, H = 0, L = 0, SP = 0, PC = 0,
        ram = preAllocatedRam, halted = False, interruptsEnabled = False,
        interruptPending = False, interruptVector = 0, portInputHandler = pih,
        portOutput = []\<rparr>"

text \<open>A freshly constructed processor over zeroed memory, with an input port that reads 0.\<close>

definition cpu_zeroed :: cpu where
  "cpu_zeroed = cpu_new (\<lambda>port. 0) (\<lambda>address. 0)"

text \<open>
  The conditional jump and call cases of \<^verbatim>\<open>exec\<close>, each with the flag states in which
  the condition it passes to \<^verbatim>\<open>jmp\<close> or \<^verbatim>\<open>call\<close> is false: JNZ, JZ, JNC, JC,
  JPO, JPE, JP, JM, then CNZ, CZ, CNC, CC, CPO, CPE, CP, CM.
\<close>

definition conditionNotTaken :: "byte \<Rightarrow> cpu \<Rightarrow> bool" where
  "conditionNotTaken instr s =
     (instr = 0xc2 \<and> getFlag zero s \<noteq> 0 \<or>
      instr = 0xca \<and> getFlag zero s = 0 \<or>
      instr = 0xd2 \<and> getFlag carry s \<noteq> 0 \<or>
      instr = 0xda \<and> getFlag carry s = 0 \<or>
      instr = 0xe2 \<and> getFlag parity s \<noteq> 0 \<or>
      instr = 0xea \<and> getFlag parity s = 0 \<or>
      instr = 0xf2 \<and> getFlag sign s \<noteq> 0 \<or>
      instr = 0xfa \<and> getFlag sign s = 0 \<or>
      instr = 0xc4 \<and> getFlag zero s \<noteq> 0 \<or>
      instr = 0xcc \<and> getFlag zero s = 0 \<or>
      instr = 0xd4 \<and> getFlag carry s \<noteq> 0 \<or>
      instr = 0xdc \<and> getFlag carry s = 0 \<or>
      instr = 0xe4 \<and> getFlag parity s \<noteq> 0 \<or>
      instr = 0xec \<and> getFlag parity s = 0 \<or>
      instr = 0xf4 \<and> getFlag sign s \<noteq> 0 \<or>
      instr = 0xfc \<and> getFlag sign s = 0)"

text \<open>
  The host drives the processor through \<^verbatim>\<open>step()\<close> and \<^verbatim>\<open>interrupt(vector)\<close>: a
  run is a list of such calls, made in order.
\<close>

datatype hostCall = CallStep | CallInterrupt byte

fun hostCalls :: "hostCall list \<Rightarrow> cpu \<Rightarrow> cpu" where
  "hostCalls [] s = s"
| "hostCalls (CallStep # calls) s = hostCalls calls (step s)"
| "hostCalls (CallInterrupt v # calls) s = hostCalls calls (interrupt v s)"

section \<open>The Intel HEX loader\<close>

text \<open>
  \<^verbatim>\<open>asciiToHex\<close>: the value of an upper-case hexadecimal digit, and 0 for every
  other character.
\<close>

definition asciiToHex :: "char \<Rightarrow> byte" where
  "asciiToHex c =
     (if (of_char (CHR ''0'') :: nat) \<le> of_char c \<and> (of_char c :: nat) \<le> of_char (CHR ''9'')
      then of_nat (of_char c - of_char (CHR ''0''))
      else if (of_char (CHR ''A'') :: nat) \<le> of_char c \<and> (of_char c :: nat) \<le> of_char (CHR ''F'')
      then of_nat ((of_char c - of_char (CHR ''A'')) + 10)
      else 0)"

text \<open>
  The local variables of \<^verbatim>\<open>loadIntelHexFile\<close> that the parse loop updates.
  \<^verbatim>\<open>records\<close> is a \<^verbatim>\<open>std::map<bytePair, std::vector<byte>>\<close>: an association
  list kept in ascending order of its keys, the order in which the map is iterated.
  The variables start uninitialised in the source; each is assigned in a record
  before the loop reads it there, so the model's starting value 0 is never read.
\<close>

record hexState =
  val :: int
  byteCount :: byte
  adr :: bytePair
  recordType :: byte
  records :: "(bytePair \<times> byte list) list"

text \<open>\<^verbatim>\<open>records[k].push_back(v)\<close>: a missing key is inserted with an empty vector.\<close>

fun records_push_back :: "bytePair \<Rightarrow> byte \<Rightarrow> (bytePair \<times> byte list) list \<Rightarrow> (bytePair \<times> byte list) list" where
  "records_push_back k v [] = [(k, [v])]"
| "records_push_back k v ((k', vs) # rest) =
     (if k = k' then (k', vs @ [v]) # rest
      else if k < k' then (k, [v]) # (k', vs) # rest
      else (k', vs) # records_push_back k v rest)"

text \<open>
  The body of the inner loop for the character \<open>c\<close> at offset \<open>i\<close> (from 1) after the
  colon. \<^verbatim>\<open>byteNum - 4 <= byteCount\<close> compares \<^verbatim>\<open>int\<close>s.
\<close>

definition scanChar :: "char \<Rightarrow> nat \<Rightarrow> hexState \<Rightarrow> hexState" where
  "scanChar c i st =
     (let byteNum = (i - 1) div 2 in
      if (i - 1) mod 2 = 0
      then st\<lparr>val := 0x10 * uint (asciiToHex c)\<rparr>
      else
        (let st1 = st\<lparr>val := val st + uint (asciiToHex c)\<rparr> in
         if byteNum = 0 then st1\<lparr>byteCount := of_int (val st1)\<rparr>
         else if byteNum = 1 then st1\<lparr>adr := of_int (val st1 * 0x100)\<rparr>
         else if byteNum = 2 then st1\<lparr>adr := adr st1 + of_int (val st1)\<rparr>
         else if byteNum = 3 then st1\<lparr>recordType := of_int (val st1)\<rparr>
         else if int byteNum - 4 \<le> uint (byteCount st1)
         then st1\<lparr>records := records_push_back (adr st1) (of_int (val st1)) (records st1)\<rparr>
         else st1))"

text \<open>
  The inner loop: every character after the colon at \<open>colonPos\<close>, up to the end of the
  contents or the next colon.
\<close>

function scanRecord :: "string \<Rightarrow> nat \<Rightarrow> nat \<Rightarrow> hexState \<Rightarrow> hexState" where
  "scanRecord contents colonPos i st =
     (if colonPos + i < length contents \<and> contents ! (colonPos + i) \<noteq> CHR '':''
      then scanRecord contents colonPos (i + 1) (scanChar (contents ! (colonPos + i)) i st)
      else st)"
  by pat_completeness auto
termination
  by (relation "measure (\<lambda>(contents, colonPos, i, st). length contents - (colonPos + i))") auto

declare scanRecord.simps [simp del]

text \<open>
  \<^verbatim>\<open>contents.find(c, pos)\<close>: the first position from \<open>pos\<close> on that holds \<open>c\<close>;
  \<open>None\<close> is \<^verbatim>\<open>std::string::npos\<close>.
\<close>

function find_from :: "string \<Rightarrow> char \<Rightarrow> nat \<Rightarrow> nat option" where
  "find_from contents c pos =
     (if pos < length contents
      then (if contents ! pos = c then Some pos else find_from contents c (pos + 1))
      else None)"
  by pat_completeness auto
termination
  by (relation "measure (\<lambda>(contents, c, pos). length contents - pos)") auto

declare find_from.simps [simp del]

text \<open>
  The outer loop: it starts at position 0, whatever character is there, and goes on
  from each colon to the next one.
\<close>

function parseRecords :: "string \<Rightarrow> nat \<Rightarrow> hexState \<Rightarrow> hexState" where
  "parseRecords contents colonPos st =
     (let st1 = scanRecord contents colonPos 1 st in
      case find_from contents (CHR '':'') (colonPos + 1) of
        None \<Rightarrow> st1
      | Some next \<Rightarrow> parseRecords contents next st1)"
  by pat_completeness auto
termination
proof (relation "measure (\<lambda>(contents, colonPos, st). length contents - colonPos)")
  show "wf (measure (\<lambda>(contents, colonPos, st). length contents - colonPos))"
    by simp
next
  fix contents :: string and colonPos :: nat and st st1 :: hexState and "next" :: nat
  assume found: "find_from contents (CHR '':'') (colonPos + 1) = Some next"
  have bounds: "find_from cs c pos = Some p \<Longrightarrow> pos \<le> p \<and> p < length cs"
    for cs c pos p
  proof (induction cs c pos rule: find_from.induct)
    case (1 cs c pos)
    show ?case
    proof (cases "pos < length cs")
      case False
      with "1.prems" show ?thesis
        by (simp add: find_from.simps)
    next
      case inside: True
      show ?thesis
      proof (cases "cs ! pos = c")
        case True
        with inside "1.prems" show ?thesis
          by (simp add: find_from.simps)
      next
        case False
        with inside "1.prems" have "find_from cs c (pos + 1) = Some p"
          by (simp add: find_from.simps [of cs c pos])
        with "1.IH" [OF inside False] show ?thesis
          by simp
      qed
    qed
  qed
  from found have "colonPos + 1 \<le> next \<and> next < length contents"
    by (rule bounds)
  then have "length contents - next < length contents - colonPos"
    by arith
  then show "((contents, next, st1), (contents, colonPos, st))
      \<in> measure (\<lambda>(contents, colonPos, st). length contents - colonPos)"
    by simp
qed

declare parseRecords.simps [simp del]

text \<open>
  Writing one record: \<^verbatim>\<open>memory[record.first + i] = record.second[i]\<close>. The index is
  an \<^verbatim>\<open>int\<close>, so it does not wrap at 16 bits.
\<close>

fun writeRecord :: "nat \<Rightarrow> nat \<Rightarrow> byte list \<Rightarrow> (nat \<Rightarrow> byte) \<Rightarrow> (nat \<Rightarrow> byte)" where
  "writeRecord first i [] memory = memory"
| "writeRecord first i (b # bs) memory = writeRecord first (i + 1) bs (memory(first + i := b))"

fun writeRecords :: "(bytePair \<times> byte list) list \<Rightarrow> (nat \<Rightarrow> byte) \<Rightarrow> (nat \<Rightarrow> byte)" where
  "writeRecords [] memory = memory"
| "writeRecords ((first, second) # rest) memory =
     writeRecords rest (writeRecord (unat first) 0 second memory)"

text \<open>
  \<^verbatim>\<open>loadIntelHexFile\<close>. The file is its contents, or \<open>None\<close> when it cannot be
  opened. The result is the returned flag and the memory the pointer refers to.
\<close>

definition loadIntelHexFile :: "string option \<Rightarrow> (nat \<Rightarrow> byte) \<Rightarrow> bool \<times> (nat \<Rightarrow> byte)" where
  "loadIntelHexFile hexFile memory =
     (case hexFile of
        None \<Rightarrow> (False, memory)
      | Some contents \<Rightarrow>
          (let st = parseRecords contents 0
                 \<lparr>val = 0, byteCount = 0, adr = 0, recordType = 0, records = []\<rparr>
           in (True, writeRecords (records st) memory)))"

section \<open>Basic facts\<close>

lemmas flagPos_defs = carry_def parity_def auxCarry_def zero_def sign_def

lemma high_of_pair [simp]: "high_of (pair_of h l) = h"
  unfolding high_of_def pair_of_def
  by (rule bit_word_eqI) (auto simp add: bit_simps dest: bit_imp_le_length)

lemma low_of_pair [simp]: "low_of (pair_of h l) = l"
  unfolding low_of_def pair_of_def
  by (rule bit_word_eqI) (auto simp add: bit_simps)

lemma pair_of_high_low [simp]: "pair_of (high_of w) (low_of w) = w"
  unfolding high_of_def low_of_def pair_of_def
  by (rule bit_word_eqI) (auto simp add: bit_simps)

lemma read16_write16 [simp]: "read16 (write16 m a v) a = v"
  by (simp add: read16_def write16_def)

lemma ucast_byte_pair_byte [simp]: "(ucast (ucast (x :: byte) :: bytePair) :: byte) = x"
  by (rule bit_word_eqI) (auto simp add: bit_simps)

text \<open>A property of every byte follows from checking it on the 256 values.\<close>

lemma byte_unat_lt: "unat (a :: byte) < 256"
  using unsigned_less [of a, where ?'a = nat] by simp

lemma byte_exhaust:
  assumes "list_all P (map of_nat [0..<256])"
  shows "P (a :: byte)"
proof -
  have "unat a \<in> set [0..<256]"
    using byte_unat_lt [of a] by simp
  then have "(of_nat (unat a) :: byte) \<in> set (map of_nat [0..<256])"
    unfolding set_map by (rule imageI)
  with assms have "P (of_nat (unat a))"
    unfolding list_all_iff by blast
  then show ?thesis by simp
qed

lemma rotate_bytes:
  "drop_bit 1 (push_bit 1 a + drop_bit 7 a)
     + push_bit 7 1 * take_bit 1 (push_bit 1 a + drop_bit 7 a) = (a :: byte)
   \<and> drop_bit 1 (push_bit 1 a) = a AND 0x7F
   \<and> ((a AND 0x7F = a) = (a < 0x80))"
  by (rule byte_exhaust) code_simp

lemma fixed_bits_mask:
  "(f AND NOT (push_bit 5 1)) AND NOT (push_bit 3 1) OR push_bit 1 1 = (f AND 0xD7) OR (0x02 :: byte)
   \<and> bit ((f AND 0xD7) OR (0x02 :: byte)) 1
   \<and> \<not> bit ((f AND 0xD7) OR (0x02 :: byte)) 3
   \<and> \<not> bit ((f AND 0xD7) OR (0x02 :: byte)) 5"
  by (rule byte_exhaust) code_simp

lemma A_setFlag [simp]: "A (setFlag f c s) = A s"
  by (simp add: setFlag_def)

lemma exec_rotate:
  "A (exec 0x07 s) = push_bit 1 (A s) + drop_bit 7 (A s)"
  "A (exec 0x0f s) = drop_bit 1 (A s) + push_bit 7 1 * take_bit 1 (A s)"
  "A (exec 0x17 s) = push_bit 1 (A s)"
  "A (exec 0x1f s) = drop_bit 1 (A s)"
  by (simp_all add: exec_def Let_def highBitsOf_def lowBitsOf_def)

lemma exec_stack:
  "exec 0xc5 s = push (BC s) s" "exec 0xd5 s = push (DE s) s"
  "exec 0xe5 s = push (HL s) s" "exec 0xf5 s = push (PSW s) s"
  "exec 0xc1 s = pop rBC s" "exec 0xd1 s = pop rDE s"
  "exec 0xe1 s = pop rHL s" "exec 0xf1 s = pop rPSW s"
  by (simp_all add: exec_def)

lemma exec_conditional:
  "exec 0xc2 s = jmp (getFlag zero s = 0) s" "exec 0xca s = jmp (getFlag zero s \<noteq> 0) s"
  "exec 0xd2 s = jmp (getFlag carry s = 0) s" "exec 0xda s = jmp (getFlag carry s \<noteq> 0) s"
  "exec 0xe2 s = jmp (getFlag parity s = 0) s" "exec 0xea s = jmp (getFlag parity s \<noteq> 0) s"
  "exec 0xf2 s = jmp (getFlag sign s = 0) s" "exec 0xfa s = jmp (getFlag sign s \<noteq> 0) s"
  "exec 0xc4 s = call (getFlag zero s = 0) s" "exec 0xcc s = call (getFlag zero s \<noteq> 0) s"
  "exec 0xd4 s = call (getFlag carry s = 0) s" "exec 0xdc s = call (getFlag carry s \<noteq> 0) s"
  "exec 0xe4 s = call (getFlag parity s = 0) s" "exec 0xec s = call (getFlag parity s \<noteq> 0) s"
  "exec 0xf4 s = call (getFlag sign s = 0) s" "exec 0xfc s = call (getFlag sign s \<noteq> 0) s"
  by (simp_all add: exec_def)

lemma exec_misc:
  "exec 0x00 s = s" "exec 0x76 s = s\<lparr>halted := True\<rparr>" "exec 0xcb s = s"
  "exec 0xc7 s = rst 0 s"
  by (simp_all add: exec_def)

lemma jmp_False: "jmp False s = s\<lparr>PC := PC s + 2\<rparr>"
  by (simp add: jmp_def get16_def)

lemma call_False: "call False s = s\<lparr>PC := PC s + 2\<rparr>"
  by (simp add: call_def get16_def)

lemma step_fetch:
  "\<not> halted s \<Longrightarrow> \<not> (interruptsEnabled s \<and> interruptPending s) \<Longrightarrow>
   step s = exec (ram s (unat (PC s))) (s\<lparr>PC := PC s + 1\<rparr>)"
  by (auto simp add: step_def get8_def)

lemma step_halted:
  "halted s \<Longrightarrow> \<not> (interruptsEnabled s \<and> interruptPending s) \<Longrightarrow> step s = s"
  by (auto simp add: step_def)

section \<open>The interrupt scenario\<close>

text \<open>
  Once \<^verbatim>\<open>interrupt\<close> has latched a vector, the next \<^verbatim>\<open>step\<close> does not execute it:
  a running processor fetches the instruction at the program counter, a halted one does
  nothing.
\<close>

lemma step_after_interrupt:
  assumes "interruptsEnabled s"
  shows "step (interrupt v s) =
     (if halted s then interrupt v s
      else exec (ram s (unat (PC s))) ((interrupt v s)\<lparr>PC := PC s + 1\<rparr>))"
  using assms by (simp add: interrupt_def step_def get8_def)

text \<open>
  A halted processor with no enabled interrupt pending is never woken: whatever calls
  of \<^verbatim>\<open>step\<close> and \<^verbatim>\<open>interrupt\<close> the host makes, it stays halted, with the same
  program counter, stack pointer and memory.
\<close>

lemma halted_never_woken:
  assumes "halted s" "\<not> (interruptsEnabled s \<and> interruptPending s)"
  shows "halted (hostCalls calls s) \<and> PC (hostCalls calls s) = PC s
     \<and> SP (hostCalls calls s) = SP s \<and> ram (hostCalls calls s) = ram s"
  using assms
proof (induction calls arbitrary: s)
  case Nil
  then show ?case by simp
next
  case (Cons call calls)
  show ?case
  proof (cases call)
    case CallStep
    with Cons.prems have "step s = s"
      by (simp add: step_halted)
    with Cons.IH [OF Cons.prems] CallStep show ?thesis
      by simp
  next
    case (CallInterrupt v)
    have "halted (interrupt v s)"
      "\<not> (interruptsEnabled (interrupt v s) \<and> interruptPending (interrupt v s))"
      "PC (interrupt v s) = PC s" "SP (interrupt v s) = SP s" "ram (interrupt v s) = ram s"
      using Cons.prems by (auto simp add: interrupt_def)
    with Cons.IH [of "interrupt v s"] CallInterrupt show ?thesis
      by simp
  qed
qed

text \<open>
  C1. With interrupts enabled, \<^verbatim>\<open>interrupt(0xC7)\<close> followed by one \<^verbatim>\<open>step()\<close> is
  claimed to execute the RST 0 vector. \<^verbatim>\<open>interrupt\<close> clears \<open>interruptsEnabled\<close>
  when it latches the vector, and \<^verbatim>\<open>step\<close> executes the vector only while
  \<open>interruptsEnabled\<close> holds, so the step fetches the next instruction instead. Here
  the processor runs at address \<open>0x0100\<close> over memory full of NOPs with the stack
  pointer at \<open>0x0200\<close>: after the step the program counter is \<open>0x0101\<close>, nothing was
  pushed, and the interrupt is still pending. A halted processor stays halted.
\<close>

theorem interrupt_then_step_fetches_normally:
  "PC (step (interrupt 0xC7 (s\<lparr>interruptsEnabled := True, halted := False,
        PC := 0x0100, SP := 0x0200, ram := (\<lambda>address. 0)\<rparr>))) = 0x0101
   \<and> SP (step (interrupt 0xC7 (s\<lparr>interruptsEnabled := True, halted := False,
        PC := 0x0100, SP := 0x0200, ram := (\<lambda>address. 0)\<rparr>))) = 0x0200
   \<and> ram (step (interrupt 0xC7 (s\<lparr>interruptsEnabled := True, halted := False,
        PC := 0x0100, SP := 0x0200, ram := (\<lambda>address. 0)\<rparr>))) = (\<lambda>address. 0)
   \<and> interruptPending (step (interrupt 0xC7 (s\<lparr>interruptsEnabled := True, halted := False,
        PC := 0x0100, SP := 0x0200, ram := (\<lambda>address. 0)\<rparr>)))
   \<and> step (interrupt 0xC7 (s\<lparr>interruptsEnabled := True, halted := True,
        PC := 0x0100, SP := 0x0200, ram := (\<lambda>address. 0)\<rparr>))
       = s\<lparr>interruptsEnabled := False, halted := True, PC := 0x0100, SP := 0x0200,
           ram := (\<lambda>address. 0), interruptPending := True, interruptVector := 0xC7\<rparr>"
  by (simp add: interrupt_def step_def get8_def exec_misc)

section \<open>The hex-load scenario\<close>

lemma hex_load_scenario_Suc:
  "loadIntelHexFile (Some '':0300000002030405\<newline>:00000001FF\<newline>'') (\<lambda>address. 0)
   = (True, (\<lambda>address. 0)(0 := 0x02, Suc 0 := 0x03, Suc (Suc 0) := 0x04,
        Suc (Suc (Suc 0)) := 0x05, Suc (Suc (Suc (Suc 0))) := 0xFF))"
  by (simp add: loadIntelHexFile_def parseRecords.simps scanRecord.simps find_from.simps
      scanChar_def asciiToHex_def Let_def)

lemma small_numerals_Suc:
  "(1::nat) = Suc 0" "(2::nat) = Suc (Suc 0)" "(3::nat) = Suc (Suc (Suc 0))"
  "(4::nat) = Suc (Suc (Suc (Suc 0)))"
  by simp_all

text \<open>
  C2. Loading \<^verbatim>\<open>:0300000002030405\<close>, \<^verbatim>\<open>:00000001FF\<close> (each line ended by a
  newline) into zeroed memory is claimed to change the bytes at 0, 1, 2 only. The
  bound \<^verbatim>\<open>byteNum - 4 <= byteCount\<close> admits one byte more than the byte count, the
  checksum: the loader also writes \<open>0x05\<close> to address 3 and, from the end-of-file
  record, \<open>0xFF\<close> to address 4.
\<close>

theorem hex_load_scenario_writes_checksums:
  "loadIntelHexFile (Some '':0300000002030405\<newline>:00000001FF\<newline>'') (\<lambda>address. 0)
   = (True, (\<lambda>address. 0)(0 := 0x02, 1 := 0x03, 2 := 0x04, 3 := 0x05, 4 := 0xFF))"
  unfolding small_numerals_Suc by (rule hex_load_scenario_Suc)

section \<open>Addition and subtraction\<close>

lemma getFlag_bit: "getFlag f s = of_bool (bit (flags s) f)"
proof -
  have "odd (unat (drop_bit f (flags s))) = bit (unat (drop_bit f (flags s))) 0"
    by (simp add: bit_0)
  also have "\<dots> = bit (drop_bit f (flags s)) 0"
    by (simp add: bit_unsigned_iff)
  also have "\<dots> = bit (flags s) f"
    by (simp add: bit_drop_bit_eq)
  finally have "odd (unat (drop_bit f (flags s))) = bit (flags s) f" .
  then show ?thesis
    by (simp add: getFlag_def mod_2_eq_odd)
qed

lemma bit_flags_setFlag:
  "f < 8 \<Longrightarrow> bit (flags (setFlag g c s)) f = (if f = g then c else bit (flags s) f)"
  by (auto simp add: setFlag_def bit_simps)

lemma getFlag_setFlag:
  "f < 8 \<Longrightarrow> getFlag f (setFlag g c s) = (if f = g then of_bool c else getFlag f s)"
  by (simp add: getFlag_bit bit_flags_setFlag)

lemma getFlag_A_update [simp]: "getFlag f (s\<lparr>A := a\<rparr>) = getFlag f s"
  by (simp add: getFlag_def)

lemma getFlag_le_1: "getFlag f s = 0 \<or> getFlag f s = 1"
  by (simp add: getFlag_bit)

text \<open>
  What \<^verbatim>\<open>add\<close> and \<^verbatim>\<open>sub\<close> compute, for every input: the operand with the
  carry added is a byte, and the Carry test is made on that byte.
\<close>

lemma add_flags:
  "A (add r8 withCarry s) = A s + (if withCarry \<and> getFlag carry s \<noteq> 0 then r8 + 1 else r8)
   \<and> getFlag carry (add r8 withCarry s)
       = of_bool (uint (if withCarry \<and> getFlag carry s \<noteq> 0 then r8 + 1 else r8) > 255 - uint (A s))
   \<and> getFlag auxCarry (add r8 withCarry s)
       = of_bool (unat (take_bit 4 (if withCarry \<and> getFlag carry s \<noteq> 0 then r8 + 1 else r8))
                  + unat (take_bit 4 (A s)) > 15)
   \<and> getFlag sign (add r8 withCarry s) = of_bool (sint (A (add r8 withCarry s)) < 0)
   \<and> getFlag zero (add r8 withCarry s) = of_bool (A (add r8 withCarry s) = 0)
   \<and> getFlag parity (add r8 withCarry s) = of_bool (builtin_parity (A (add r8 withCarry s)) = 0)"
  by (simp add: add_def updateFlags_def updateAuxCarryFlag_def lowBitsOf_def Let_def
      getFlag_setFlag flagPos_defs)

lemma sub_flags:
  "A (sub r8 withBorrow s) = A s - (if withBorrow \<and> getFlag carry s \<noteq> 0 then r8 + 1 else r8)
   \<and> getFlag carry (sub r8 withBorrow s)
       = of_bool ((if withBorrow \<and> getFlag carry s \<noteq> 0 then r8 + 1 else r8) > A s)
   \<and> getFlag auxCarry (sub r8 withBorrow s) = getFlag auxCarry s
   \<and> getFlag sign (sub r8 withBorrow s) = of_bool (sint (A (sub r8 withBorrow s)) < 0)
   \<and> getFlag zero (sub r8 withBorrow s) = of_bool (A (sub r8 withBorrow s) = 0)
   \<and> getFlag parity (sub r8 withBorrow s) = of_bool (builtin_parity (A (sub r8 withBorrow s)) = 0)"
  by (simp add: sub_def updateFlags_def Let_def getFlag_setFlag flagPos_defs)

text \<open>
  Unless the operand is \<open>0xFF\<close> and a set Carry is added to it, the Carry test is the
  one on the true sum, and on the true amount subtracted.
\<close>

lemma uint_succ_byte: "r8 \<noteq> (0xFF :: byte) \<Longrightarrow> uint (r8 + 1) = uint r8 + 1"
proof -
  assume "r8 \<noteq> 0xFF"
  then have "unat r8 \<noteq> unat (0xFF :: byte)"
    by (simp only: word_unat_eq_iff not_False_eq_True)
  then have "unat r8 \<noteq> 255"
    by simp
  with byte_unat_lt [of r8] have "unat r8 + 1 < 256" by simp
  then have succ: "unat (r8 + 1) = unat r8 + 1"
    by (simp add: unat_word_ariths)
  have "uint (r8 + 1) = int (unat (r8 + 1))"
    by (rule uint_nat)
  also have "\<dots> = int (unat r8) + 1"
    by (simp only: succ of_nat_add of_nat_1)
  also have "int (unat r8) = uint r8"
    by (rule uint_nat [symmetric])
  finally show ?thesis .
qed

lemma add_carry_unless_wrapped:
  assumes "\<not> (withCarry \<and> getFlag carry s \<noteq> 0 \<and> r8 = 0xFF)"
  shows "(getFlag carry (add r8 withCarry s) = 1)
     = (uint (A s) + uint r8 + (if withCarry then int (getFlag carry s) else 0) > 255)"
  using assms getFlag_le_1 [of carry s]
  by (auto simp add: add_flags uint_succ_byte)

lemma sub_carry_unless_wrapped:
  assumes "\<not> (withBorrow \<and> getFlag carry s \<noteq> 0 \<and> r8 = 0xFF)"
  shows "(getFlag carry (sub r8 withBorrow s) = 1)
     = (uint r8 + (if withBorrow then int (getFlag carry s) else 0) > uint (A s))"
  using assms getFlag_le_1 [of carry s]
  by (auto simp add: sub_flags uint_succ_byte word_less_def)

text \<open>
  C3. \<^verbatim>\<open>add\<close> is claimed to set Carry exactly when the true sum exceeds 255. With
  A = 0, operand \<open>0xFF\<close>, \<open>withCarry\<close> and Carry set, the true sum is 256, but the
  operand with the carry added has wrapped to 0 before the comparison: A stays 0 and
  Carry ends clear.
\<close>

theorem add_0xFF_with_carry_clears_carry:
  "A (add 0xFF True (s\<lparr>A := 0x00, flags := 0x03\<rparr>)) = 0x00
   \<and> getFlag carry (add 0xFF True (s\<lparr>A := 0x00, flags := 0x03\<rparr>)) = 0
   \<and> getFlag carry (s\<lparr>A := 0x00, flags := 0x03\<rparr>) = 1
   \<and> uint (A (s\<lparr>A := 0x00, flags := 0x03\<rparr>)) + uint (0xFF :: byte)
       + int (getFlag carry (s\<lparr>A := 0x00, flags := 0x03\<rparr>)) = 256"
  by (simp add: add_def getFlag_def setFlag_def updateFlags_def updateAuxCarryFlag_def
      lowBitsOf_def flagPos_defs builtin_parity_def Let_def)

text \<open>
  C4. \<^verbatim>\<open>sub\<close> is claimed to set Carry exactly when the amount subtracted exceeds A.
  With A = \<open>0x10\<close>, operand \<open>0xFF\<close>, \<open>withBorrow\<close> and Carry set, the amount is 256,
  but it has wrapped to 0 before the comparison: A stays \<open>0x10\<close> and Carry ends clear.
  The Auxiliary Carry flag is left as it was.
\<close>

theorem sub_0xFF_with_borrow_clears_carry:
  "A (sub 0xFF True (s\<lparr>A := 0x10, flags := 0x03\<rparr>)) = 0x10
   \<and> getFlag carry (sub 0xFF True (s\<lparr>A := 0x10, flags := 0x03\<rparr>)) = 0
   \<and> getFlag carry (s\<lparr>A := 0x10, flags := 0x03\<rparr>) = 1
   \<and> uint (0xFF :: byte) + int (getFlag carry (s\<lparr>A := 0x10, flags := 0x03\<rparr>))
       > uint (A (s\<lparr>A := 0x10, flags := 0x03\<rparr>))
   \<and> getFlag auxCarry (sub 0xFF True (s\<lparr>A := 0x10, flags := 0x03\<rparr>))
       = getFlag auxCarry (s\<lparr>A := 0x10, flags := 0x03\<rparr>)"
  by (simp add: sub_def getFlag_def setFlag_def updateFlags_def
      flagPos_defs builtin_parity_def Let_def)

section \<open>Rotates\<close>

text \<open>
  C5, as amended. RLC then RRC returns A to its original value, for every A and every
  Carry. RAL then RAR returns A with bit 7 cleared, whatever the Carry flag is before
  RAL or between the two instructions: RAL and RAR shift a zero into the vacated bit.
  So RAL then RAR restores A exactly when A is below \<open>0x80\<close>.
\<close>

theorem rotate_round_trips:
  "A (exec 0x0f (exec 0x07 s)) = A s
   \<and> A (exec 0x1f (exec 0x17 s)) = A s AND 0x7F
   \<and> A (exec 0x1f (setFlag carry c (exec 0x17 s))) = A s AND 0x7F
   \<and> (A (exec 0x1f (exec 0x17 s)) = A s) = (A s < 0x80)"
  using rotate_bytes [of "A s"] by (simp add: exec_rotate)

theorem rotate_round_trips_witness:
  "A (exec 0x0f (exec 0x07 (cpu_zeroed\<lparr>A := 0xB5\<rparr>))) = 0xB5
   \<and> A (exec 0x1f (exec 0x17 (cpu_zeroed\<lparr>A := 0xB5\<rparr>))) = 0x35
   \<and> A (exec 0x1f (setFlag carry False (exec 0x17 (cpu_zeroed\<lparr>A := 0xB5\<rparr>)))) = 0x35"
  using rotate_round_trips [of "cpu_zeroed\<lparr>A := 0xB5\<rparr>" False]
  by simp

text \<open>
  C5 as stated fails: from A = \<open>0x80\<close>, RAL then RAR leaves A = 0.
\<close>

theorem ral_rar_loses_bit_7:
  "A (exec 0x1f (exec 0x17 (cpu_zeroed\<lparr>A := 0x80\<rparr>))) = 0x00
   \<and> A (exec 0x1f (exec 0x17 (cpu_zeroed\<lparr>A := 0x80\<rparr>))) \<noteq> A (cpu_zeroed\<lparr>A := 0x80\<rparr>)"
  by (simp add: exec_rotate)

section \<open>Stack push and pop\<close>

lemma pop_unfold:
  "pop r s =
     setFlag 1 True (setFlag 3 False (setFlag 5 False
       ((set_r16 r (read16 (ram s) (unat (SP s))) s)
          \<lparr>SP := SP (set_r16 r (read16 (ram s) (unat (SP s))) s) + 2\<rparr>)))"
  by (simp add: pop_def Let_def)

lemma flags_setFlag_fixed:
  "flags (setFlag 1 True (setFlag 3 False (setFlag 5 False s))) = (flags s AND 0xD7) OR 0x02"
proof -
  have "flags (setFlag 1 True (setFlag 3 False (setFlag 5 False s)))
      = (flags s AND NOT (push_bit 5 1)) AND NOT (push_bit 3 1) OR push_bit 1 1"
    by (simp add: setFlag_def)
  then show ?thesis
    by (simp only: fixed_bits_mask)
qed

lemma flags_pop:
  "flags (pop r s) = (flags (set_r16 r (read16 (ram s) (unat (SP s))) s) AND 0xD7) OR 0x02"
  by (simp only: pop_unfold flags_setFlag_fixed) simp

lemma regs_pop:
  "B (pop r s) = B (set_r16 r (read16 (ram s) (unat (SP s))) s)"
  "C (pop r s) = C (set_r16 r (read16 (ram s) (unat (SP s))) s)"
  "D (pop r s) = D (set_r16 r (read16 (ram s) (unat (SP s))) s)"
  "E (pop r s) = E (set_r16 r (read16 (ram s) (unat (SP s))) s)"
  "H (pop r s) = H (set_r16 r (read16 (ram s) (unat (SP s))) s)"
  "L (pop r s) = L (set_r16 r (read16 (ram s) (unat (SP s))) s)"
  "A (pop r s) = A (set_r16 r (read16 (ram s) (unat (SP s))) s)"
  by (simp_all add: pop_unfold setFlag_def)

lemma push_memory:
  "ram (push v s) = write16 (ram s) (unat (SP s - 2)) v" "SP (push v s) = SP s - 2"
  by (simp_all add: push_def Let_def)

lemma set_r16_memory:
  "r \<noteq> rSP \<Longrightarrow> SP (set_r16 r v s) = SP s" "ram (set_r16 r v s) = ram s"
  by (cases r; simp)+

lemma low_of_read16: "low_of (read16 m a) = m a"
  by (simp add: read16_def)

text \<open>
  C6. PUSH of a register pair followed by POP into the same pair restores the pair,
  also when the pair is overwritten with any value \<open>v\<close> in between (the value comes
  back from the stack). For PSW the accumulator is restored and the flags come back
  with bits 1, 3, 5 forced to 1, 0, 0: the pushed flags \<open>AND 0xD7\<close>, \<open>OR 0x02\<close>.
\<close>

theorem push_pop_restores_pair:
  "BC (exec 0xc1 (exec 0xc5 s)) = BC s
   \<and> DE (exec 0xd1 (exec 0xd5 s)) = DE s
   \<and> HL (exec 0xe1 (exec 0xe5 s)) = HL s
   \<and> PSW (exec 0xf1 (exec 0xf5 s)) = pair_of (A s) ((flags s AND 0xD7) OR 0x02)
   \<and> BC (exec 0xc1 (set_r16 rBC v (exec 0xc5 s))) = BC s
   \<and> DE (exec 0xd1 (set_r16 rDE v (exec 0xd5 s))) = DE s
   \<and> HL (exec 0xe1 (set_r16 rHL v (exec 0xe5 s))) = HL s
   \<and> PSW (exec 0xf1 (set_r16 rPSW v (exec 0xf5 s))) = pair_of (A s) ((flags s AND 0xD7) OR 0x02)"
proof -
  have bc: "BC (pop rBC (set_r16 rBC w (push (BC s) s))) = BC s" for w
    by (simp add: BC_def regs_pop push_memory)
  have de: "DE (pop rDE (set_r16 rDE w (push (DE s) s))) = DE s" for w
    by (simp add: DE_def regs_pop push_memory)
  have hl: "HL (pop rHL (set_r16 rHL w (push (HL s) s))) = HL s" for w
    by (simp add: HL_def regs_pop push_memory)
  have psw: "PSW (pop rPSW (set_r16 rPSW w (push (PSW s) s)))
      = pair_of (A s) ((flags s AND 0xD7) OR 0x02)" for w
    by (simp add: PSW_def regs_pop flags_pop push_memory)
  have same: "set_r16 rBC (BC t) t = t" "set_r16 rDE (DE t) t = t"
    "set_r16 rHL (HL t) t = t" "set_r16 rPSW (PSW t) t = t" for t
    by (simp_all add: BC_def DE_def HL_def PSW_def)
  have regs_push: "BC (push x s) = BC s" "DE (push x s) = DE s" "HL (push x s) = HL s"
    "PSW (push x s) = PSW s" for x
    by (simp_all add: BC_def DE_def HL_def PSW_def push_def Let_def)
  from bc [of "BC s"] same(1) [of "push (BC s) s"] regs_push(1) [of "BC s"]
  have bc0: "BC (pop rBC (push (BC s) s)) = BC s" by simp
  from de [of "DE s"] same(2) [of "push (DE s) s"] regs_push(2) [of "DE s"]
  have de0: "DE (pop rDE (push (DE s) s)) = DE s" by simp
  from hl [of "HL s"] same(3) [of "push (HL s) s"] regs_push(3) [of "HL s"]
  have hl0: "HL (pop rHL (push (HL s) s)) = HL s" by simp
  from psw [of "PSW s"] same(4) [of "push (PSW s) s"] regs_push(4) [of "PSW s"]
  have psw0: "PSW (pop rPSW (push (PSW s) s)) = pair_of (A s) ((flags s AND 0xD7) OR 0x02)"
    by simp
  show ?thesis
    by (simp only: exec_stack bc de hl psw bc0 de0 hl0 psw0 simp_thms)
qed

theorem push_pop_restores_pair_witness:
  "BC (exec 0xc1 (exec 0xc5 (cpu_zeroed\<lparr>B := 0x12, C := 0x34, SP := 0x0100\<rparr>))) = 0x1234
   \<and> BC (exec 0xc1 (set_r16 rBC 0xFFFF
        (exec 0xc5 (cpu_zeroed\<lparr>B := 0x12, C := 0x34, SP := 0x0100\<rparr>)))) = 0x1234
   \<and> PSW (exec 0xf1 (exec 0xf5 (cpu_zeroed\<lparr>A := 0x9B, flags := 0xFF, SP := 0x0100\<rparr>)))
       = 0x9BD7"
  using push_pop_restores_pair [of "cpu_zeroed\<lparr>B := 0x12, C := 0x34, SP := 0x0100\<rparr>" "0xFFFF"]
    push_pop_restores_pair [of "cpu_zeroed\<lparr>A := 0x9B, flags := 0xFF, SP := 0x0100\<rparr>" "0xFFFF"]
  by (simp add: BC_def pair_of_def)

text \<open>
  C7. Every \<^verbatim>\<open>pop\<close>, whatever its destination \<open>r\<close>, leaves bit 1 of the flags
  register set and bits 3 and 5 clear. POP BC, POP DE and POP HL change the flags
  register to its old value \<open>AND 0xD7\<close>, \<open>OR 0x02\<close>; POP PSW loads it from the stack
  and forces the same bits.
\<close>

theorem pop_forces_fixed_flag_bits:
  "bit (flags (pop r s)) 1 \<and> \<not> bit (flags (pop r s)) 3 \<and> \<not> bit (flags (pop r s)) 5
   \<and> flags (exec 0xc1 s) = (flags s AND 0xD7) OR 0x02
   \<and> flags (exec 0xd1 s) = (flags s AND 0xD7) OR 0x02
   \<and> flags (exec 0xe1 s) = (flags s AND 0xD7) OR 0x02
   \<and> flags (exec 0xf1 s) = (ram s (unat (SP s)) AND 0xD7) OR 0x02"
proof -
  have bits: "bit (flags (pop r s)) 1 \<and> \<not> bit (flags (pop r s)) 3 \<and> \<not> bit (flags (pop r s)) 5"
    using fixed_bits_mask [of "flags (set_r16 r (read16 (ram s) (unat (SP s))) s)"]
    by (simp only: flags_pop) simp
  have "flags (pop rBC s) = (flags s AND 0xD7) OR 0x02"
    "flags (pop rDE s) = (flags s AND 0xD7) OR 0x02"
    "flags (pop rHL s) = (flags s AND 0xD7) OR 0x02"
    "flags (pop rPSW s) = (ram s (unat (SP s)) AND 0xD7) OR 0x02"
    by (simp_all add: flags_pop low_of_read16)
  with bits show ?thesis
    by (simp only: exec_stack) simp
qed

theorem pop_forces_fixed_flag_bits_witness:
  "flags (exec 0xc1 (cpu_zeroed\<lparr>flags := 0xFF\<rparr>)) = 0xD7
   \<and> flags (exec 0xf1 (cpu_zeroed\<lparr>ram := (\<lambda>address. 0xFF)\<rparr>)) = 0xD7
   \<and> bit (flags (pop rPC (cpu_zeroed\<lparr>flags := 0x28\<rparr>))) 1"
  using pop_forces_fixed_flag_bits [of rBC "cpu_zeroed\<lparr>flags := 0xFF\<rparr>"]
    pop_forces_fixed_flag_bits [of rBC "cpu_zeroed\<lparr>ram := (\<lambda>address. 0xFF)\<rparr>"]
    pop_forces_fixed_flag_bits [of rPC "cpu_zeroed\<lparr>flags := 0x28\<rparr>"]
  by simp

section \<open>Conditional jumps and calls\<close>

lemma conditionNotTaken_PC [simp]:
  "conditionNotTaken instr (s\<lparr>PC := p\<rparr>) = conditionNotTaken instr s"
  by (simp add: conditionNotTaken_def getFlag_def)

lemma exec_conditionNotTaken:
  assumes "conditionNotTaken instr s"
  shows "exec instr s = s\<lparr>PC := PC s + 2\<rparr>"
  using assms unfolding conditionNotTaken_def
  by (elim disjE conjE; simp add: exec_conditional jmp_False call_False)

text \<open>
  C8. A conditional jump or call whose condition is not taken moves the program
  counter past its two operand bytes and changes nothing else: no register, flag,
  stack pointer or memory cell. Fetched by \<^verbatim>\<open>step\<close>, the instruction moves the
  program counter by 3 in all.
\<close>

theorem conditional_not_taken_only_advances_PC:
  assumes "conditionNotTaken instr s"
  shows "exec instr s = s\<lparr>PC := PC s + 2\<rparr>
    \<and> (\<not> halted s \<and> \<not> (interruptsEnabled s \<and> interruptPending s)
          \<and> ram s (unat (PC s)) = instr
        \<longrightarrow> step s = s\<lparr>PC := PC s + 3\<rparr>)"
proof -
  have "conditionNotTaken instr (s\<lparr>PC := PC s + 1\<rparr>)"
    using assms by simp
  then have "exec instr (s\<lparr>PC := PC s + 1\<rparr>) = s\<lparr>PC := PC s + 3\<rparr>"
    by (simp add: exec_conditionNotTaken)
  with assms show ?thesis
    by (simp add: exec_conditionNotTaken step_fetch)
qed

theorem conditional_not_taken_witness:
  "conditionNotTaken 0xc2 (cpu_zeroed\<lparr>flags := 0x42, ram := (\<lambda>address. 0)(0 := 0xc2)\<rparr>)
   \<and> exec 0xc2 (cpu_zeroed\<lparr>flags := 0x42, ram := (\<lambda>address. 0)(0 := 0xc2)\<rparr>)
       = cpu_zeroed\<lparr>flags := 0x42, ram := (\<lambda>address. 0)(0 := 0xc2), PC := 2\<rparr>
   \<and> \<not> halted (cpu_zeroed\<lparr>flags := 0x42, ram := (\<lambda>address. 0)(0 := 0xc2)\<rparr>)
   \<and> step (cpu_zeroed\<lparr>flags := 0x42, ram := (\<lambda>address. 0)(0 := 0xc2)\<rparr>)
       = cpu_zeroed\<lparr>flags := 0x42, ram := (\<lambda>address. 0)(0 := 0xc2), PC := 3\<rparr>"
proof -
  have h: "conditionNotTaken 0xc2 (cpu_zeroed\<lparr>flags := 0x42, ram := (\<lambda>address. 0)(0 := 0xc2)\<rparr>)"
    by (simp add: conditionNotTaken_def getFlag_def flagPos_defs)
  show ?thesis
    using h conditional_not_taken_only_advances_PC [OF h]
    by (simp add: cpu_zeroed_def cpu_new_def setFlag_def)
qed

section \<open>Halting\<close>

lemma halted_funpow_step:
  "halted s \<Longrightarrow> \<not> (interruptsEnabled s \<and> interruptPending s) \<Longrightarrow> (step ^^ n) s = s"
  by (induction n) (simp_all add: step_halted)

text \<open>
  C9. After HLT has been executed with no enabled interrupt pending, any number of
  \<^verbatim>\<open>step\<close> calls leaves the whole state as it is: program counter, registers, flags
  and memory. An \<^verbatim>\<open>interrupt\<close> call while interrupts are disabled changes nothing
  either. When \<^verbatim>\<open>step\<close> fetches the HLT, that first step moves the program counter
  past the opcode and halts; all later steps change nothing.
\<close>

theorem halted_steps_change_nothing:
  assumes "\<not> (interruptsEnabled s \<and> interruptPending s)"
  shows "exec 0x76 s = s\<lparr>halted := True\<rparr>
    \<and> (step ^^ n) (exec 0x76 s) = exec 0x76 s
    \<and> (\<not> interruptsEnabled s \<longrightarrow> interrupt v (exec 0x76 s) = exec 0x76 s)
    \<and> (\<not> halted s \<and> ram s (unat (PC s)) = 0x76
        \<longrightarrow> (step ^^ Suc n) s = s\<lparr>PC := PC s + 1, halted := True\<rparr>)"
proof -
  have a: "(step ^^ n) (exec 0x76 s) = exec 0x76 s"
    using assms by (simp add: exec_misc halted_funpow_step)
  have b: "(step ^^ Suc n) s = s\<lparr>PC := PC s + 1, halted := True\<rparr>"
    if "\<not> halted s" "ram s (unat (PC s)) = 0x76"
  proof -
    have "step s = s\<lparr>PC := PC s + 1, halted := True\<rparr>"
      using that assms by (simp add: step_fetch exec_misc)
    moreover have "(step ^^ n) (s\<lparr>PC := PC s + 1, halted := True\<rparr>)
        = s\<lparr>PC := PC s + 1, halted := True\<rparr>"
      using assms by (simp add: halted_funpow_step)
    ultimately show ?thesis
      by (simp add: funpow_swap1)
  qed
  from a b show ?thesis
    by (simp add: exec_misc interrupt_def)
qed

theorem halted_steps_witness:
  "\<not> (interruptsEnabled (cpu_zeroed\<lparr>ram := (\<lambda>address. 0)(0 := 0x76)\<rparr>)
       \<and> interruptPending (cpu_zeroed\<lparr>ram := (\<lambda>address. 0)(0 := 0x76)\<rparr>))
   \<and> \<not> halted (cpu_zeroed\<lparr>ram := (\<lambda>address. 0)(0 := 0x76)\<rparr>)
   \<and> (step ^^ Suc 5) (cpu_zeroed\<lparr>ram := (\<lambda>address. 0)(0 := 0x76)\<rparr>)
       = cpu_zeroed\<lparr>ram := (\<lambda>address. 0)(0 := 0x76), PC := 1, halted := True\<rparr>"
proof -
  have h: "\<not> (interruptsEnabled (cpu_zeroed\<lparr>ram := (\<lambda>address. 0)(0 := 0x76)\<rparr>)
       \<and> interruptPending (cpu_zeroed\<lparr>ram := (\<lambda>address. 0)(0 := 0x76)\<rparr>))"
    by (simp add: cpu_zeroed_def cpu_new_def setFlag_def)
  show ?thesis
    using h halted_steps_change_nothing [OF h, of 5]
    by (simp add: cpu_zeroed_def cpu_new_def setFlag_def)
qed

section \<open>The opcode without a case\<close>

text \<open>
  C10. \<open>0xCB\<close> has no case in the \<^verbatim>\<open>switch\<close> of \<^verbatim>\<open>exec\<close>: executing it changes
  nothing, and a step that fetches it only moves the program counter by one.
\<close>

theorem exec_0xCB_changes_nothing:
  "exec 0xCB s = s
   \<and> (\<not> halted s \<and> \<not> (interruptsEnabled s \<and> interruptPending s)
         \<and> ram s (unat (PC s)) = 0xCB
       \<longrightarrow> step s = s\<lparr>PC := PC s + 1\<rparr>)"
  by (simp add: exec_misc step_fetch)

theorem exec_0xCB_witness:
  "\<not> halted (cpu_zeroed\<lparr>ram := (\<lambda>address. 0)(0 := 0xCB)\<rparr>)
   \<and> \<not> (interruptsEnabled (cpu_zeroed\<lparr>ram := (\<lambda>address. 0)(0 := 0xCB)\<rparr>)
        \<and> interruptPending (cpu_zeroed\<lparr>ram := (\<lambda>address. 0)(0 := 0xCB)\<rparr>))
   \<and> ram (cpu_zeroed\<lparr>ram := (\<lambda>address. 0)(0 := 0xCB)\<rparr>)
        (unat (PC (cpu_zeroed\<lparr>ram := (\<lambda>address. 0)(0 := 0xCB)\<rparr>))) = 0xCB
   \<and> step (cpu_zeroed\<lparr>ram := (\<lambda>address. 0)(0 := 0xCB)\<rparr>)
       = cpu_zeroed\<lparr>ram := (\<lambda>address. 0)(0 := 0xCB), PC := 1\<rparr>"
  using exec_0xCB_changes_nothing [of "cpu_zeroed\<lparr>ram := (\<lambda>address. 0)(0 := 0xCB)\<rparr>"]
  by (simp add: cpu_zeroed_def cpu_new_def setFlag_def)

end
